theory Spec2Isabelle
  imports Main "HOL-Library.Word"
begin

section \<open>Values, errors and the module-level tables of util.py\<close>

text \<open>
  Python integers are unbounded, so they are \<open>int\<close>. A Python float is a C double; it is
  carried as its 64-bit pattern. A byte string is a \<open>string\<close>: every \<open>char\<close> of HOL is one
  8-bit byte. Exceptions are values of \<open>error\<close>, returned on the left of a sum.
\<close>

datatype error =
    LaspyException string
  | LaspyHeaderException string
  | KeyError
  | IndexError
  | AttributeError
  | TypeError
  | ValueError
  | OverflowError
  | StructError
  | Unmodelled

datatype pyval =
    VNone
  | VInt int
  | VFloat "64 word"
  | VStr string
  | VList "pyval list"
  | VDatetime int int int

text \<open>The seven ctypes classes that are the keys of \<open>LEfmt\<close>.\<close>

datatype ctype = c_long | c_ushort | c_ubyte | c_float | c_char | c_double | c_ulonglong

definition bindE :: "error + 'a \<Rightarrow> ('a \<Rightarrow> error + 'b) \<Rightarrow> error + 'b" where
  "bindE m f = (case m of Inl e \<Rightarrow> Inl e | Inr x \<Rightarrow> f x)"

definition getitem :: "('k \<rightharpoonup> 'v) \<Rightarrow> 'k \<Rightarrow> error + 'v" where
  "getitem d k = (case d k of None \<Rightarrow> Inl KeyError | Some v \<Rightarrow> Inr v)"

definition fmtLen :: "string \<rightharpoonup> int" where
  "fmtLen = map_of [(''<L'', 4), (''<H'', 2), (''<B'', 1), (''<f'', 4), (''<s'', 1),
                    (''<d'', 8), (''<Q'', 8)]"

fun LEfmt :: "ctype \<Rightarrow> string" where
  "LEfmt c_long = ''<L''"
| "LEfmt c_ushort = ''<H''"
| "LEfmt c_ubyte = ''<B''"
| "LEfmt c_float = ''<f''"
| "LEfmt c_char = ''<s''"
| "LEfmt c_double = ''<d''"
| "LEfmt c_ulonglong = ''<Q''"

definition npFmt :: "string \<rightharpoonup> string" where
  "npFmt = map_of [(''<L'', ''i4''), (''<H'', ''u2''), (''<B'', ''u1''), (''<f'', ''f4''),
                   (''<s'', ''s1''), (''<d'', ''f8''), (''<Q'', ''u8'')]"

definition defaults :: "string \<rightharpoonup> pyval" where
  "defaults = map_of [(''<L'', VInt 0), (''<H'', VInt 0), (''<B'', VStr ''0''),
                      (''<f'', VFloat 0), (''<s'', VStr '' ''), (''<d'', VFloat 0),
                      (''<Q'', VInt 0)]"

section \<open>Spec\<close>

record Spec =
  name :: string
  offs :: int
  Format :: ctype
  fmt :: string
  length' :: int
  num :: int
  pack :: bool
  np_fmt :: string
  default' :: pyval
  overwritable :: bool
  idx :: int

text \<open>
  \<open>defaults[self.fmt]*self.num\<close> when \<open>num == 1\<close> or the default is a string,
  \<open>[defaults[self.fmt]]*self.num\<close> otherwise. Repeating a string or a list a
  non-positive number of times gives the empty one.
\<close>

definition spec_default :: "pyval \<Rightarrow> int \<Rightarrow> pyval" where
  "spec_default d n =
     (case d of
        VStr s \<Rightarrow> VStr (concat (replicate (nat n) s))
      | _ \<Rightarrow> if n = 1 then d else VList (replicate (nat n) d))"

definition Spec_init ::
  "string \<Rightarrow> int \<Rightarrow> ctype \<Rightarrow> int \<Rightarrow> bool \<Rightarrow> bool \<Rightarrow> bool \<Rightarrow> int \<Rightarrow> error + Spec" where
  "Spec_init name' offs' fmt' num' pack' ltl_endian overwritable' idx' =
     (if ltl_endian then
        bindE (getitem fmtLen (LEfmt fmt')) (\<lambda>len.
        bindE (getitem npFmt (LEfmt fmt')) (\<lambda>np.
        bindE (getitem defaults (LEfmt fmt')) (\<lambda>d.
          Inr \<lparr>name = name', offs = offs', Format = fmt', fmt = LEfmt fmt', length' = len,
               num = num', pack = pack', np_fmt = np, default' = spec_default d num',
               overwritable = overwritable', idx = idx'\<rparr>)))
      else Inl (LaspyException ''Big endian files are not currently supported.''))"

section \<open>The struct module, for the format strings Format builds\<close>

text \<open>
  \<open>pt_fmt_long\<close> is always \<open><\<close> followed by conversion codes taken from the values of
  \<open>LEfmt\<close>, without repeat counts. \<open>Struct_init\<close> covers exactly these strings; with
  \<open><\<close> the sizes are the standard ones and there is no padding. Any other format string
  is outside this model and gives \<open>Unmodelled\<close>, which is not an exception of Python.
\<close>

definition code_size :: "char \<rightharpoonup> nat" where
  "code_size = map_of [(CHR ''L'', 4), (CHR ''H'', 2), (CHR ''B'', 1), (CHR ''f'', 4),
                       (CHR ''s'', 1), (CHR ''d'', 8), (CHR ''Q'', 8)]"

fun calcsize :: "string \<Rightarrow> nat option" where
  "calcsize [] = Some 0"
| "calcsize (c # cs) =
     (case code_size c of None \<Rightarrow> None
      | Some k \<Rightarrow> (case calcsize cs of None \<Rightarrow> None | Some n \<Rightarrow> Some (k + n)))"

record Struct =
  format_S :: string
  codes :: string
  size_S :: nat

definition Struct_init :: "string \<Rightarrow> error + Struct" where
  "Struct_init f =
     (case f of
        [] \<Rightarrow> Inl Unmodelled
      | c # cs \<Rightarrow>
          if c = CHR ''<'' then
            (case calcsize cs of
               None \<Rightarrow> Inl Unmodelled
             | Some n \<Rightarrow> Inr \<lparr>format_S = f, codes = cs, size_S = n\<rparr>)
          else Inl Unmodelled)"

section \<open>Format\<close>

record Format =
  fmtF :: string
  specs :: "Spec list"
  rec_len :: int
  pt_fmt_long :: string
  format_type :: "string option"
  lookup :: "string \<rightharpoonup> Spec"
  packer :: "Struct option"

datatype fmt_arg = IdInt int | IdStr string

function str_nat :: "nat \<Rightarrow> string" where
  "str_nat n = (if n < 10 then [''0123456789'' ! n]
                else str_nat (n div 10) @ [''0123456789'' ! (n mod 10)])"
  by pat_completeness auto
termination
  by (relation "measure id") auto

declare str_nat.simps [simp del]

text \<open>\<open>str(fmt)\<close> for the two kinds of identifier a caller passes.\<close>

fun py_str :: "fmt_arg \<Rightarrow> string" where
  "py_str (IdStr s) = s"
| "py_str (IdInt i) = (if i < 0 then CHR ''-'' # str_nat (nat (- i)) else str_nat (nat i))"

definition add :: "Format \<Rightarrow> string \<Rightarrow> ctype \<Rightarrow> int \<Rightarrow> bool \<Rightarrow> bool \<Rightarrow> error + Format" where
  "add self name' fmt' num' pack' overwritable' =
     bindE (if List.length (specs self) = 0 then Inr 0
            else (let l = List.last (specs self)
                  in bindE (getitem fmtLen (fmt l)) (\<lambda>k. Inr (offs l + num l * k)))) (\<lambda>offs'.
     bindE (getitem fmtLen (LEfmt fmt')) (\<lambda>k.
     let self1 = self\<lparr>rec_len := rec_len self + num' * k\<rparr> in
     bindE (Spec_init name' offs' fmt' num' pack' True overwritable'
              (int (List.length (specs self1)))) (\<lambda>sp.
     let self2 = self1\<lparr>specs := specs self1 @ [sp]\<rparr> in
     if 1 < List.length (LEfmt fmt')
     then Inr (self2\<lparr>pt_fmt_long := pt_fmt_long self2 @ [LEfmt fmt' ! 1]\<rparr>)
     else Inl IndexError)))"

text \<open>
  \<open>add\<close> also appends the XML description of the new spec to \<open>_etree\<close>; that tree is
  read by \<open>xml\<close> and \<open>etree\<close> only and is left out here.

  A run of consecutive \<open>self.add(...)\<close> statements; the first exception ends it.
\<close>

fun adds :: "Format \<Rightarrow> (string \<times> ctype \<times> int \<times> bool \<times> bool) list \<Rightarrow> error + Format" where
  "adds self [] = Inr self"
| "adds self ((n, f, k, p, ow) # rest) = bindE (add self n f k p ow) (\<lambda>self'. adds self' rest)"

text \<open>
  The field lists of the constructor, each entry an \<open>add\<close> call with its name, ctypes
  class, count, \<open>pack\<close> and \<open>overwritable\<close> (both at their defaults when the call
  leaves them out).
\<close>

definition point_fields :: "(string \<times> ctype \<times> int \<times> bool \<times> bool) list" where
  "point_fields =
     [(''X'', c_long, 1, False, True),
      (''Y'', c_long, 1, False, True),
      (''Z'', c_long, 1, False, True),
      (''intensity'', c_ushort, 1, False, True),
      (''flag_byte'', c_ubyte, 1, False, True),
      (''raw_classification'', c_ubyte, 1, False, True),
      (''scan_angle_rank'', c_ubyte, 1, False, True),
      (''user_data'', c_ubyte, 1, False, True),
      (''pt_src_id'', c_ushort, 1, False, True)]"

definition gps_fields :: "(string \<times> ctype \<times> int \<times> bool \<times> bool) list" where
  "gps_fields = [(''gps_time'', c_double, 1, False, True)]"

definition rgb_fields :: "(string \<times> ctype \<times> int \<times> bool \<times> bool) list" where
  "rgb_fields =
     [(''red'', c_ushort, 1, False, True),
      (''green'', c_ushort, 1, False, True),
      (''blue'', c_ushort, 1, False, True)]"

definition wave_fields :: "(string \<times> ctype \<times> int \<times> bool \<times> bool) list" where
  "wave_fields =
     [(''wave_packet_descp_idx'', c_ubyte, 1, False, True),
      (''byte_offset_to_wavefm_data'', c_ulonglong, 1, False, True),
      (''wavefm_pkt_size'', c_long, 1, False, True),
      (''return_pt_wavefm_loc'', c_float, 1, False, True),
      (''x_t'', c_float, 1, False, True),
      (''y_t'', c_float, 1, False, True),
      (''z_t'', c_float, 1, False, True)]"

definition vlr_fields :: "(string \<times> ctype \<times> int \<times> bool \<times> bool) list" where
  "vlr_fields =
     [(''reserved'', c_ushort, 1, False, True),
      (''user_id'', c_char, 16, False, True),
      (''record_id'', c_ushort, 1, False, True),
      (''rec_len_after_header'', c_ushort, 1, False, True),
      (''description'', c_char, 32, True, True)]"

definition header_fields :: "bool \<Rightarrow> (string \<times> ctype \<times> int \<times> bool \<times> bool) list" where
  "header_fields overwritable' =
     [(''file_sig'', c_char, 4, True, overwritable'),
      (''file_src'', c_ushort, 1, False, True),
      (''global_encoding'', c_ushort, 1, False, True),
      (''proj_id_1'', c_long, 1, False, True),
      (''proj_id_2'', c_ushort, 1, False, True),
      (''proj_id_3'', c_ushort, 1, False, True),
      (''proj_id_4'', c_ubyte, 8, False, True),
      (''version_major'', c_ubyte, 1, False, overwritable'),
      (''version_minor'', c_ubyte, 1, False, overwritable'),
      (''sys_id'', c_char, 32, True, True),
      (''gen_soft'', c_char, 32, True, True),
      (''created_day'', c_ushort, 1, False, True),
      (''created_year'', c_ushort, 1, False, True),
      (''header_size'', c_ushort, 1, False, overwritable'),
      (''offset_to_point_data'', c_long, 1, False, True),
      (''num_variable_len_recs'', c_long, 1, False, True),
      (''pt_dat_format_id'', c_ubyte, 1, False, overwritable'),
      (''pt_dat_rec_len'', c_ushort, 1, False, True),
      (''num_pt_recs'', c_long, 1, False, True)]"

text \<open>
  The branch for \<open>h1.3\<close> and the branch for \<open>h1.0\<close>, \<open>h1.1\<close>, \<open>h1.2\<close> add the same
  thirteen fields; they differ in the count of \<open>num_pts_by_return\<close>, 7 or 5.
\<close>

definition bounds_fields :: "int \<Rightarrow> (string \<times> ctype \<times> int \<times> bool \<times> bool) list" where
  "bounds_fields returns =
     [(''num_pts_by_return'', c_long, returns, False, True),
      (''x_scale'', c_double, 1, False, True),
      (''y_scale'', c_double, 1, False, True),
      (''z_scale'', c_double, 1, False, True),
      (''x_offset'', c_double, 1, False, True),
      (''y_offset'', c_double, 1, False, True),
      (''z_offset'', c_double, 1, False, True),
      (''x_max'', c_double, 1, False, True),
      (''x_min'', c_double, 1, False, True),
      (''y_max'', c_double, 1, False, True),
      (''y_min'', c_double, 1, False, True),
      (''z_max'', c_double, 1, False, True),
      (''z_min'', c_double, 1, False, True)]"

definition Format_init :: "fmt_arg \<Rightarrow> bool \<Rightarrow> error + Format" where
  "Format_init fmt0 overwritable' =
     (let f = py_str fmt0;
          self = \<lparr>fmtF = f, specs = [], rec_len = 0, pt_fmt_long = ''<'',
                  format_type = None, lookup = Map.empty, packer = None\<rparr>
      in
      if f \<notin> set [''0'', ''1'', ''2'', ''3'', ''4'', ''5'', ''VLR'',
                    ''h1.0'', ''h1.1'', ''h1.2'', ''h1.3'']
      then Inl (LaspyException (''Invalid format: '' @ f))
      else
      bindE (if f \<in> set [''0'', ''1'', ''2'', ''3'', ''4'', ''5'']
             then adds (self\<lparr>format_type := Some (''point format = '' @ f)\<rparr>) point_fields
             else Inr self) (\<lambda>self.
      bindE (if f \<in> set [''1'', ''3'', ''4'', ''5''] then adds self gps_fields
             else Inr self) (\<lambda>self.
      bindE (if f \<in> set [''3'', ''5''] then adds self rgb_fields
             else if f = ''2'' then adds self rgb_fields
             else Inr self) (\<lambda>self.
      bindE (if f = ''4'' then adds self wave_fields
             else if f = ''5'' then adds self wave_fields
             else Inr self) (\<lambda>self.
      bindE (if f = ''VLR'' then adds (self\<lparr>format_type := Some ''VLR''\<rparr>) vlr_fields
             else Inr self) (\<lambda>self.
      bindE (if hd f = CHR ''h''
             then bindE (adds (self\<lparr>format_type := Some (''header version = '' @ tl f)\<rparr>)
                           (header_fields overwritable')) (\<lambda>self.
                  if f = ''h1.3'' then adds self (bounds_fields 7)
                  else if f \<in> set [''h1.0'', ''h1.1'', ''h1.2''] then adds self (bounds_fields 5)
                  else Inr self)
             else Inr self) (\<lambda>self.
      let self = self\<lparr>lookup := fold (\<lambda>spec d. d(name spec \<mapsto> spec)) (specs self)
                                   Map.empty\<rparr>
      in bindE (Struct_init (pt_fmt_long self)) (\<lambda>pk.
           Inr (self\<lparr>packer := Some pk\<rparr>)))))))))"


section \<open>Packing and unpacking with a Struct\<close>

text \<open>
  Little-endian bytes of an unsigned integer, and back. The conversions between a C double
  and a C float, and from a Python integer to a double, are those of the platform; they are
  parameters of the codec.
\<close>

fun le_bytes :: "nat \<Rightarrow> int \<Rightarrow> string" where
  "le_bytes 0 i = []"
| "le_bytes (Suc n) i = char_of (i mod 256) # le_bytes n (i div 256)"

fun le_int :: "string \<Rightarrow> int" where
  "le_int [] = 0"
| "le_int (c # cs) = of_char c + 256 * le_int cs"

record fp_casts =
  d2f :: "64 word \<Rightarrow> 32 word option"
  f2d :: "32 word \<Rightarrow> 64 word"
  i2d :: "int \<Rightarrow> 64 word option"

text \<open>
  \<open>pack\<close> wants as many values as the format has codes. An integer code takes an integer
  in its unsigned range, a float code a float or an integer, \<open>s\<close> a byte string, of which
  it keeps the first byte (a zero byte for the empty string); anything else is
  \<open>struct.error\<close>. \<open>unpack\<close> wants a block of exactly \<open>size\<close> bytes.
\<close>

fun pack_uint :: "nat \<Rightarrow> pyval \<Rightarrow> error + string" where
  "pack_uint n (VInt i) = (if 0 \<le> i \<and> i < 256 ^ n then Inr (le_bytes n i) else Inl StructError)"
| "pack_uint n v = Inl StructError"

fun pack_double :: "fp_casts \<Rightarrow> pyval \<Rightarrow> error + 64 word" where
  "pack_double fp (VFloat w) = Inr w"
| "pack_double fp (VInt i) = (case i2d fp i of None \<Rightarrow> Inl OverflowError | Some w \<Rightarrow> Inr w)"
| "pack_double fp v = Inl StructError"

fun pack_char :: "pyval \<Rightarrow> error + string" where
  "pack_char (VStr s) = Inr [case s of [] \<Rightarrow> CHR 0x00 | c # cs \<Rightarrow> c]"
| "pack_char v = Inl StructError"

definition pack_value :: "fp_casts \<Rightarrow> char \<Rightarrow> pyval \<Rightarrow> error + string" where
  "pack_value fp c v =
     (if c = CHR ''L'' then pack_uint 4 v
      else if c = CHR ''H'' then pack_uint 2 v
      else if c = CHR ''B'' then pack_uint 1 v
      else if c = CHR ''Q'' then pack_uint 8 v
      else if c = CHR ''d'' then bindE (pack_double fp v) (\<lambda>w. Inr (le_bytes 8 (uint w)))
      else if c = CHR ''f'' then
        bindE (pack_double fp v) (\<lambda>w.
          case d2f fp w of None \<Rightarrow> Inl OverflowError | Some x \<Rightarrow> Inr (le_bytes 4 (uint x)))
      else if c = CHR ''s'' then pack_char v
      else Inl Unmodelled)"

fun pack_all :: "fp_casts \<Rightarrow> string \<Rightarrow> pyval list \<Rightarrow> error + string" where
  "pack_all fp [] vs = Inr []"
| "pack_all fp (c # cs) [] = Inl StructError"
| "pack_all fp (c # cs) (v # vs) =
     bindE (pack_value fp c v) (\<lambda>b. bindE (pack_all fp cs vs) (\<lambda>bs. Inr (b @ bs)))"

definition Struct_pack :: "fp_casts \<Rightarrow> Struct \<Rightarrow> pyval list \<Rightarrow> error + string" where
  "Struct_pack fp S vs =
     (if List.length vs \<noteq> List.length (codes S) then Inl StructError
      else pack_all fp (codes S) vs)"

definition unpack_value :: "fp_casts \<Rightarrow> char \<Rightarrow> string \<Rightarrow> error + pyval" where
  "unpack_value fp c b =
     (if c \<in> set ''LHBQ'' then Inr (VInt (le_int b))
      else if c = CHR ''d'' then Inr (VFloat (word_of_int (le_int b)))
      else if c = CHR ''f'' then Inr (VFloat (f2d fp (word_of_int (le_int b))))
      else if c = CHR ''s'' then Inr (VStr b)
      else Inl Unmodelled)"

fun unpack_all :: "fp_casts \<Rightarrow> string \<Rightarrow> string \<Rightarrow> error + pyval list" where
  "unpack_all fp [] bs = Inr []"
| "unpack_all fp (c # cs) bs =
     (case code_size c of
        None \<Rightarrow> Inl Unmodelled
      | Some k \<Rightarrow>
          bindE (unpack_value fp c (take k bs)) (\<lambda>v.
          bindE (unpack_all fp cs (drop k bs)) (\<lambda>vs. Inr (v # vs))))"

definition Struct_unpack :: "fp_casts \<Rightarrow> Struct \<Rightarrow> string \<Rightarrow> error + pyval list" where
  "Struct_unpack fp S bs =
     (if List.length bs \<noteq> size_S S then Inl StructError
      else unpack_all fp (codes S) bs)"


section \<open>Point\<close>

text \<open>
  Of the reader a point uses its \<open>point_format\<close> and the two bit-string helpers. An
  argument left at its default \<open>False\<close> is \<open>None\<close> here. \<open>dictP\<close> holds the named
  attributes that \<open>make_nice\<close> adds to the instance.
\<close>

record Point =
  point_format :: Format
  packerP :: Struct
  unpacked :: "pyval list"
  dictP :: "string \<rightharpoonup> pyval"

text \<open>
  Modelled from the spec: the reader's \<open>binary_str\<close> and \<open>packed_str\<close> are not part of
  these sources. Bit 0 is the least-significant bit, and the value of the sub-field at
  \<open>low_bit\<close> of width \<open>width\<close> is \<open>(byte >> low_bit) & ((1 << width) - 1)\<close>. So
  \<open>packed_str(binary_str(b)[lo:hi])\<close> is \<open>bit_field b lo (hi - lo)\<close>.
\<close>

definition bit_field :: "int \<Rightarrow> nat \<Rightarrow> nat \<Rightarrow> int" where
  "bit_field byte low_bit width = and (drop_bit low_bit byte) (push_bit width 1 - 1)"

text \<open>
  Modelled from the spec: \<open>pack\<close> reassembles the two composite bytes by shifting the
  sub-field values into their bit ranges and OR-ing them. The sources have no such code.
\<close>

definition assemble_flag_byte :: "int \<Rightarrow> int \<Rightarrow> int \<Rightarrow> int \<Rightarrow> int" where
  "assemble_flag_byte return_num num_returns scan_dir_flag edge_flight_line =
     or (or (or return_num (push_bit 3 num_returns)) (push_bit 6 scan_dir_flag))
        (push_bit 7 edge_flight_line)"

definition assemble_raw_classification :: "int \<Rightarrow> int \<Rightarrow> int \<Rightarrow> int \<Rightarrow> int" where
  "assemble_raw_classification classification synthetic key_point withheld =
     or (or (or classification (push_bit 5 synthetic)) (push_bit 6 key_point))
        (push_bit 7 withheld)"

definition getattr :: "(string \<rightharpoonup> pyval) \<Rightarrow> string \<Rightarrow> error + pyval" where
  "getattr d n = (case d n of None \<Rightarrow> Inl AttributeError | Some v \<Rightarrow> Inr v)"

fun name_attributes :: "Spec list \<Rightarrow> pyval list \<Rightarrow> (string \<rightharpoonup> pyval) \<Rightarrow> error + (string \<rightharpoonup> pyval)" where
  "name_attributes [] vs d = Inr d"
| "name_attributes (dim # dims) [] d = Inl IndexError"
| "name_attributes (dim # dims) (v # vs) d = name_attributes dims vs (d(name dim \<mapsto> v))"

definition sub_fields ::
  "pyval \<Rightarrow> (string \<times> nat \<times> nat) list \<Rightarrow> (string \<rightharpoonup> pyval) \<Rightarrow> error + (string \<rightharpoonup> pyval)" where
  "sub_fields byte parts d =
     (case byte of
        VInt b \<Rightarrow> Inr (fold (\<lambda>(n, lo, w) d'. d'(n \<mapsto> VInt (bit_field b lo w))) parts d)
      | _ \<Rightarrow> Inl TypeError)"

definition make_nice :: "Point \<Rightarrow> error + Point" where
  "make_nice self =
     bindE (name_attributes (specs (point_format self)) (unpacked self) (dictP self)) (\<lambda>d.
     bindE (getattr d ''flag_byte'') (\<lambda>fb.
     bindE (sub_fields fb [(''return_num'', 0, 3), (''num_returns'', 3, 3),
                            (''scan_dir_flag'', 6, 1), (''edge_flight_line'', 7, 1)] d) (\<lambda>d.
     bindE (getattr d ''raw_classification'') (\<lambda>rc.
     bindE (sub_fields rc [(''classification'', 0, 5), (''synthetic'', 5, 1),
                            (''key_point'', 6, 1), (''withheld'', 7, 1)] d) (\<lambda>d.
     Inr (self\<lparr>dictP := d\<rparr>))))))"

definition Point_init ::
  "fp_casts \<Rightarrow> Format \<Rightarrow> string option \<Rightarrow> pyval list option \<Rightarrow> bool \<Rightarrow> error + Point" where
  "Point_init fp reader_point_format bytestr unpacked_list nice =
     (case packer reader_point_format of
        None \<Rightarrow> Inl AttributeError
      | Some pk \<Rightarrow>
          bindE (case bytestr of
                   Some bs \<Rightarrow> Struct_unpack fp pk bs
                 | None \<Rightarrow>
                     (case unpacked_list of
                        Some vs \<Rightarrow> Inr vs
                      | None \<Rightarrow> Inl (LaspyException
                          ''No byte string or attribute list supplied for point.''))) (\<lambda>vs.
          let self = \<lparr>point_format = reader_point_format, packerP = pk, unpacked = vs,
                       dictP = Map.empty\<rparr>
          in if nice then make_nice self else Inr self))"

definition Point_pack :: "fp_casts \<Rightarrow> Point \<Rightarrow> error + string" where
  "Point_pack fp self = Struct_pack fp (packerP self) (unpacked self)"

section \<open>header.py\<close>

fun leap_year :: "int \<Rightarrow> bool" where
  "leap_year year =
     (if year mod 400 = 0 then True
      else if year mod 100 = 0 then True
      else if year mod 4 = 0 then False
      else False)"

subsection \<open>The datetime module: dates of the proleptic Gregorian calendar\<close>

text \<open>
  A \<open>datetime\<close> at midnight is \<open>VDatetime year month day\<close>. The arithmetic is that of
  the module: a date is its ordinal, day 1 being 0001-01-01, and the years are 1 to 9999.
\<close>

definition DAYS_IN_MONTH :: "int list" where
  "DAYS_IN_MONTH = [-1, 31, 28, 31, 30, 31, 30, 31, 31, 30, 31, 30, 31]"

definition DAYS_BEFORE_MONTH :: "int list" where
  "DAYS_BEFORE_MONTH = [-1, 0, 31, 59, 90, 120, 151, 181, 212, 243, 273, 304, 334]"

definition MAXORDINAL :: int where
  "MAXORDINAL = 3652059"

definition is_leap :: "int \<Rightarrow> bool" where
  "is_leap year = (year mod 4 = 0 \<and> (year mod 100 \<noteq> 0 \<or> year mod 400 = 0))"

definition days_before_year :: "int \<Rightarrow> int" where
  "days_before_year year =
     (let y = year - 1 in y * 365 + y div 4 - y div 100 + y div 400)"

definition days_in_month :: "int \<Rightarrow> int \<Rightarrow> int" where
  "days_in_month year month =
     (if month = 2 \<and> is_leap year then 29 else DAYS_IN_MONTH ! nat month)"

definition days_before_month :: "int \<Rightarrow> int \<Rightarrow> int" where
  "days_before_month year month =
     DAYS_BEFORE_MONTH ! nat month + (if 2 < month \<and> is_leap year then 1 else 0)"

definition ymd2ord :: "int \<Rightarrow> int \<Rightarrow> int \<Rightarrow> int" where
  "ymd2ord year month day = days_before_year year + days_before_month year month + day"

definition ord2ymd :: "int \<Rightarrow> int \<times> int \<times> int" where
  "ord2ymd n0 =
     (let n = n0 - 1;
          n400 = n div 146097; n = n mod 146097;
          year = n400 * 400 + 1;
          n100 = n div 36524; n = n mod 36524;
          n4 = n div 1461; n = n mod 1461;
          n1 = n div 365; n = n mod 365;
          year = year + n100 * 100 + n4 * 4 + n1
      in if n1 = 4 \<or> n100 = 4 then (year - 1, 12, 31)
         else
           let leapyear = (n1 = 3 \<and> (n4 \<noteq> 24 \<or> n100 = 3));
               month = (n + 50) div 32;
               preceding = DAYS_BEFORE_MONTH ! nat month
                           + (if 2 < month \<and> leapyear then 1 else 0)
           in if n < preceding
              then (let month = month - 1;
                        preceding = preceding - (DAYS_IN_MONTH ! nat month
                                      + (if month = 2 \<and> leapyear then 1 else 0))
                    in (year, month, n - preceding + 1))
              else (year, month, n - preceding + 1))"

definition datetime :: "int \<Rightarrow> int \<Rightarrow> int \<Rightarrow> error + pyval" where
  "datetime year month day =
     (if \<not> (1 \<le> year \<and> year \<le> 9999) then Inl ValueError
      else if \<not> (1 \<le> month \<and> month \<le> 12) then Inl ValueError
      else if \<not> (1 \<le> day \<and> day \<le> days_in_month year month) then Inl ValueError
      else Inr (VDatetime year month day))"

definition timedelta :: "int \<Rightarrow> error + int" where
  "timedelta days = (if \<bar>days\<bar> > 999999999 then Inl OverflowError else Inr days)"

fun datetime_add :: "pyval \<Rightarrow> int \<Rightarrow> error + pyval" where
  "datetime_add (VDatetime y m d) days =
     (let n = ymd2ord y m d + days
      in if 0 < n \<and> n \<le> MAXORDINAL
         then (case ord2ymd n of (y', m', d') \<Rightarrow> Inr (VDatetime y' m' d'))
         else Inl OverflowError)"
| "datetime_add v days = Inl TypeError"

subsection \<open>Header\<close>

text \<open>
  The constructor stores what the reader decodes under the name of each dimension of the
  header format, so a header is its attribute dictionary.
\<close>

record Header =
  dictH :: "string \<rightharpoonup> pyval"

text \<open>\<open>x == 0\<close> for a value of any kind.\<close>

fun is_zero :: "pyval \<Rightarrow> bool" where
  "is_zero (VInt i) = (i = 0)"
| "is_zero (VFloat w) = (w = 0 \<or> w = 0x8000000000000000)"
| "is_zero v = False"

text \<open>
  Year and day are integers when the reader decodes the two unsigned short fields. A year
  of another kind is rejected by \<open>%\<close> or by \<open>datetime\<close>, a day that is no number by
  \<open>timedelta\<close>. A fractional day gives a time of day, which is outside this model.
\<close>

definition get_date :: "Header \<Rightarrow> error + pyval" where
  "get_date self =
     bindE (getattr (dictH self) ''CreatedDay'') (\<lambda>day.
     bindE (getattr (dictH self) ''CreatedYear'') (\<lambda>year.
     if is_zero year \<and> is_zero day then Inr VNone
     else
       (case year of
          VInt y \<Rightarrow>
            (case day of
               VInt d \<Rightarrow>
                 if \<not> leap_year y
                 then bindE (datetime y 1 1) (\<lambda>jan1.
                      bindE (timedelta d) (\<lambda>td. datetime_add jan1 td))
                 else bindE (datetime y 1 1) (\<lambda>jan1.
                      bindE (timedelta (d - 1)) (\<lambda>td. datetime_add jan1 td))
             | VFloat w \<Rightarrow> bindE (datetime y 1 1) (\<lambda>jan1. Inl Unmodelled)
             | _ \<Rightarrow> bindE (datetime y 1 1) (\<lambda>jan1. Inl TypeError))
        | _ \<Rightarrow> Inl TypeError)))"

text \<open>
  \<open>lenDict[key]\<close>: an integer key is looked up, a float equal to an integer key hashes
  like it, a list is unhashable.
\<close>

definition lenDict :: "int \<rightharpoonup> int" where
  "lenDict = map_of [(0, 20), (1, 28), (2, 26), (3, 34), (4, 57), (5, 63)]"

definition float_keys :: "(64 word \<times> int) list" where
  "float_keys = [(0, 0), (0x8000000000000000, 0), (0x3FF0000000000000, 1),
                 (0x4000000000000000, 2), (0x4008000000000000, 3),
                 (0x4010000000000000, 4), (0x4014000000000000, 5)]"

fun lenDict_getitem :: "pyval \<Rightarrow> error + int" where
  "lenDict_getitem (VInt i) = getitem lenDict i"
| "lenDict_getitem (VFloat w) =
     (case map_of float_keys w of None \<Rightarrow> Inl KeyError | Some i \<Rightarrow> getitem lenDict i)"
| "lenDict_getitem (VList vs) = Inl TypeError"
| "lenDict_getitem v = Inl KeyError"

definition get_dataformatid :: "Header \<Rightarrow> error + pyval" where
  "get_dataformatid self = getattr (dictH self) ''PtDatFormatId''"

definition get_datarecordlength :: "Header \<Rightarrow> error + int" where
  "get_datarecordlength self =
     bindE (getattr (dictH self) ''PtDatFormatID'') lenDict_getitem"


subsection \<open>The write accessors\<close>

text \<open>
  A setter returns what it raises, or nothing, together with the header it leaves behind.
  The built-in \<open>int\<close> on a string is a parameter: which literals it accepts is the
  interpreter's business.
\<close>

type_synonym setter_result = "(error + unit) \<times> Header"

fun split_on :: "char \<Rightarrow> string \<Rightarrow> string list" where
  "split_on sep [] = [[]]"
| "split_on sep (c # cs) =
     (if c = sep then [] # split_on sep cs
      else (case split_on sep cs of [] \<Rightarrow> [[c]] | p # ps \<Rightarrow> (c # p) # ps))"

definition set_filesourceid :: "Header \<Rightarrow> pyval \<Rightarrow> setter_result" where
  "set_filesourceid self v = (Inr (), self)"

definition set_global_encoding :: "Header \<Rightarrow> pyval \<Rightarrow> setter_result" where
  "set_global_encoding self v = (Inr (), self)"

definition set_majorversion :: "Header \<Rightarrow> pyval \<Rightarrow> setter_result" where
  "set_majorversion self v = (Inr (), self)"

definition set_minorversion :: "Header \<Rightarrow> pyval \<Rightarrow> setter_result" where
  "set_minorversion self v = (Inr (), self)"

definition set_version :: "(string \<Rightarrow> error + int) \<Rightarrow> Header \<Rightarrow> pyval \<Rightarrow> setter_result" where
  "set_version py_int self v =
     (case v of
        VStr s \<Rightarrow>
          (case split_on CHR ''.'' s of
             [major, minor] \<Rightarrow>
               (case py_int major of
                  Inl e \<Rightarrow> (Inl e, self)
                | Inr mj \<Rightarrow>
                    (case set_majorversion self (VInt mj) of
                       (Inl e, self1) \<Rightarrow> (Inl e, self1)
                     | (Inr u, self1) \<Rightarrow>
                         (case py_int minor of
                            Inl e \<Rightarrow> (Inl e, self1)
                          | Inr mn \<Rightarrow> set_minorversion self1 (VInt mn))))
           | _ \<Rightarrow> (Inl ValueError, self))
      | _ \<Rightarrow> (Inl AttributeError, self))"

definition set_systemid :: "Header \<Rightarrow> pyval \<Rightarrow> setter_result" where
  "set_systemid self v = (Inr (), self)"

definition set_softwareid :: "Header \<Rightarrow> pyval \<Rightarrow> setter_result" where
  "set_softwareid self v = (Inr (), self)"

definition set_date :: "Header \<Rightarrow> pyval \<Rightarrow> setter_result" where
  "set_date self v =
     (case v of
        VDatetime y m d \<Rightarrow>
          (case datetime y 1 1 of
             Inl e \<Rightarrow> (Inl e, self)
           | Inr jan1 \<Rightarrow> (if \<not> leap_year y then (Inr (), self) else (Inr (), self)))
      | _ \<Rightarrow> (Inl AttributeError, self))"

definition set_schema :: "Header \<Rightarrow> pyval \<Rightarrow> setter_result" where
  "set_schema self v = (Inr (), self)"

definition set_scale :: "Header \<Rightarrow> pyval \<Rightarrow> setter_result" where
  "set_scale self v = (Inr (), self)"

definition set_offset :: "Header \<Rightarrow> pyval \<Rightarrow> setter_result" where
  "set_offset self v = (Inr (), self)"

definition set_min :: "Header \<Rightarrow> pyval \<Rightarrow> setter_result" where
  "set_min self v = (Inr (), self)"

definition set_max :: "Header \<Rightarrow> pyval \<Rightarrow> setter_result" where
  "set_max self v = (Inr (), self)"

definition set_vlrs :: "Header \<Rightarrow> pyval \<Rightarrow> setter_result" where
  "set_vlrs self v = (Inr (), self)"

definition set_srs :: "Header \<Rightarrow> pyval \<Rightarrow> setter_result" where
  "set_srs self v = (Inr (), self)"

text \<open>The thirteen properties with a setter that the header's contract lists.\<close>

datatype accessor =
    version | scale | offset | min' | max' | date | system_id | software_id
  | file_source_id | global_encoding | vlrs | srs | schema

fun assign :: "(string \<Rightarrow> error + int) \<Rightarrow> accessor \<Rightarrow> Header \<Rightarrow> pyval \<Rightarrow> setter_result" where
  "assign py_int version = set_version py_int"
| "assign py_int scale = set_scale"
| "assign py_int offset = set_offset"
| "assign py_int min' = set_min"
| "assign py_int max' = set_max"
| "assign py_int date = set_date"
| "assign py_int system_id = set_systemid"
| "assign py_int software_id = set_softwareid"
| "assign py_int file_source_id = set_filesourceid"
| "assign py_int global_encoding = set_global_encoding"
| "assign py_int vlrs = set_vlrs"
| "assign py_int srs = set_srs"
| "assign py_int schema = set_schema"

text \<open>A reader of decimal digits, the literals every \<open>int\<close> accepts.\<close>

fun digits_value :: "string \<Rightarrow> int \<Rightarrow> error + int" where
  "digits_value [] acc = Inr acc"
| "digits_value (c # cs) acc =
     (if c \<in> set ''0123456789'' then digits_value cs (10 * acc + (of_char c - 48))
      else Inl ValueError)"

definition int_of_digits :: "string \<Rightarrow> error + int" where
  "int_of_digits s = (if s = [] then Inl ValueError else digits_value s 0)"


section \<open>Vocabulary of the properties\<close>

text \<open>
  The offsets of a field list form a chain from \<open>e\<close>: each field starts where the one
  before it ends, and every field occupies at least one byte.
\<close>

fun offsets_chain :: "int \<Rightarrow> Spec list \<Rightarrow> bool" where
  "offsets_chain e [] = True"
| "offsets_chain e (s # ss) =
     (offs s = e \<and> 0 < num s * length' s \<and> offsets_chain (e + num s * length' s) ss)"

text \<open>
  A value fits a conversion code: an integer in the code's unsigned range, a float (for
  \<open>f\<close>, one that the float format represents exactly), one character for \<open>s\<close>.
\<close>

definition wf_value :: "fp_casts \<Rightarrow> char \<Rightarrow> pyval \<Rightarrow> bool" where
  "wf_value fp c v =
     (case v of
        VInt i \<Rightarrow> 0 \<le> i \<and> (c = CHR ''L'' \<and> i < 2 ^ 32 \<or> c = CHR ''H'' \<and> i < 2 ^ 16
                            \<or> c = CHR ''B'' \<and> i < 2 ^ 8 \<or> c = CHR ''Q'' \<and> i < 2 ^ 64)
      | VFloat w \<Rightarrow> c = CHR ''d''
                    \<or> c = CHR ''f'' \<and> (case d2f fp w of None \<Rightarrow> False | Some x \<Rightarrow> f2d fp x = w)
      | VStr s \<Rightarrow> c = CHR ''s'' \<and> List.length s = 1
      | _ \<Rightarrow> False)"

text \<open>Decoding a byte block into its raw values, and encoding raw values, through Point.\<close>

definition unpack_record :: "fp_casts \<Rightarrow> Format \<Rightarrow> string \<Rightarrow> error + pyval list" where
  "unpack_record fp F bs = bindE (Point_init fp F (Some bs) None False) (\<lambda>p. Inr (unpacked p))"

definition pack_record :: "fp_casts \<Rightarrow> Format \<Rightarrow> pyval list \<Rightarrow> error + string" where
  "pack_record fp F vs = bindE (Point_init fp F None (Some vs) False) (Point_pack fp)"

definition point_ids :: "fmt_arg list" where
  "point_ids = [IdInt 0, IdInt 1, IdInt 2, IdInt 3, IdInt 4, IdInt 5]"

definition format_names :: "string list" where
  "format_names = [''0'', ''1'', ''2'', ''3'', ''4'', ''5'', ''VLR'',
                   ''h1.0'', ''h1.1'', ''h1.2'', ''h1.3'']"

section \<open>Schema construction\<close>

lemmas Format_eval =
  Format_init_def str_nat.simps bindE_def add_def getitem_def fmtLen_def npFmt_def
  defaults_def Spec_init_def Struct_init_def code_size_def Let_def spec_default_def
  point_fields_def gps_fields_def rgb_fields_def wave_fields_def vlr_fields_def
  header_fields_def bounds_fields_def

text \<open>
  C1. For each point format 0 to 5 the schema is constructed, and its record length, which
  is also the sum of the byte lengths of its fields, is 20, 28, 26, 34, 57, 63.
\<close>

theorem point_format_record_lengths:
  "map (\<lambda>a. map_sum id (\<lambda>F. (rec_len F, (\<Sum>s\<leftarrow>specs F. num s * length' s)))
              (Format_init a ow)) point_ids
   = [Inr (20, 20), Inr (28, 28), Inr (26, 26), Inr (34, 34), Inr (57, 57), Inr (63, 63)]"
  by (simp add: point_ids_def Format_eval)

lemma offsets_chain_nth:
  "offsets_chain e ss \<Longrightarrow> Suc i < List.length ss \<Longrightarrow>
     offs (ss ! Suc i) = offs (ss ! i) + num (ss ! i) * length' (ss ! i)"
proof (induction ss arbitrary: e i)
  case Nil
  then show ?case by simp
next
  case (Cons s ss)
  show ?case
  proof (cases i)
    case 0
    with Cons.prems show ?thesis by (cases ss) auto
  next
    case (Suc j)
    with Cons.prems Cons.IH [of "e + num s * length' s" j] show ?thesis by auto
  qed
qed

lemma offsets_chain_lower: "offsets_chain e ss \<Longrightarrow> s \<in> set ss \<Longrightarrow> e \<le> offs s"
proof (induction ss arbitrary: e)
  case Nil
  then show ?case by simp
next
  case (Cons a ss)
  then show ?case by (auto dest!: Cons.IH)
qed

lemma offsets_chain_sorted: "offsets_chain e ss \<Longrightarrow> sorted_wrt (<) (map offs ss)"
proof (induction ss arbitrary: e)
  case Nil
  then show ?case by simp
next
  case (Cons a ss)
  have "\<forall>s\<in>set ss. offs a < offs s"
  proof
    fix s
    assume "s \<in> set ss"
    with Cons.prems have "offs a + num a * length' a \<le> offs s"
      using offsets_chain_lower [of "offs a + num a * length' a" ss s] by auto
    with Cons.prems show "offs a < offs s" by auto
  qed
  with Cons show ?case by auto
qed

lemma Format_init_chain:
  assumes "py_str a \<in> set format_names"
  shows "\<exists>F. Format_init a ow = Inr F \<and> specs F \<noteq> [] \<and> offsets_chain 0 (specs F)"
  using assms
  apply (simp add: format_names_def)
  apply (elim disjE)
  apply (simp_all add: Format_eval)
  done

text \<open>
  C4. In the schema of any of the eleven identifiers the first field is at offset 0, each
  later field is at the offset of the field before it plus that field's byte length, and
  the offsets increase strictly.
\<close>

theorem offsets_gap_free:
  assumes "py_str a \<in> set format_names"
  shows "\<exists>F. Format_init a ow = Inr F \<and> specs F \<noteq> [] \<and> offs (specs F ! 0) = 0 \<and>
           (\<forall>i. 0 < i \<and> i < List.length (specs F) \<longrightarrow>
              offs (specs F ! i)
                = offs (specs F ! (i - 1)) + length' (specs F ! (i - 1)) * num (specs F ! (i - 1))) \<and>
           sorted_wrt (<) (map offs (specs F))"
proof -
  from Format_init_chain [OF assms, of ow] obtain F where
    F: "Format_init a ow = Inr F" "specs F \<noteq> []" "offsets_chain 0 (specs F)" by blast
  from F(2,3) have first: "offs (specs F ! 0) = 0" by (cases "specs F") auto
  have step: "offs (specs F ! i)
      = offs (specs F ! (i - 1)) + length' (specs F ! (i - 1)) * num (specs F ! (i - 1))"
    if "0 < i" "i < List.length (specs F)" for i
  proof -
    from that obtain j where j: "i = Suc j" by (cases i) auto
    with that offsets_chain_nth [OF F(3), of j] show ?thesis by (simp add: mult.commute)
  qed
  from F(1,2) first step offsets_chain_sorted [OF F(3)] show ?thesis by blast
qed

theorem offsets_gap_free_witness:
  "py_str (IdStr ''VLR'') \<in> set format_names \<and>
   (\<exists>F. Format_init (IdStr ''VLR'') False = Inr F \<and> offs (specs F ! 0) = 0 \<and>
        offs (specs F ! 1) = offs (specs F ! 0) + length' (specs F ! 0) * num (specs F ! 0) \<and>
        offs (specs F ! 1) = 2)"
proof -
  have h: "py_str (IdStr ''VLR'') \<in> set format_names" by (simp add: format_names_def)
  from offsets_gap_free [OF h, of False] obtain F where
    F: "Format_init (IdStr ''VLR'') False = Inr F" "offs (specs F ! 0) = 0"
       "\<forall>i. 0 < i \<and> i < List.length (specs F) \<longrightarrow>
          offs (specs F ! i)
            = offs (specs F ! (i - 1)) + length' (specs F ! (i - 1)) * num (specs F ! (i - 1))"
    by blast
  from F(1) have len: "List.length (specs F) = 5" and two: "offs (specs F ! 1) = 2"
    by (auto simp add: Format_eval)
  from F(3) len have "offs (specs F ! 1)
      = offs (specs F ! (1 - 1)) + length' (specs F ! (1 - 1)) * num (specs F ! (1 - 1))"
    by (intro F(3) [rule_format]) simp
  with h F(1,2) two show ?thesis by auto
qed

text \<open>
  C9, as the code has it. A little-endian field spec is constructed for every element
  count, zero and negative ones included, and carries that count: there is no arity check.
  The one construction error is the big-endian one.
\<close>

theorem Spec_init_any_count:
  "(\<exists>s. Spec_init nm off f n p True ow i = Inr s \<and> num s = n \<and> name s = nm \<and> offs s = off
        \<and> fmtLen (LEfmt f) = Some (length' s)) \<and>
   Spec_init nm off f n p False ow i
     = Inl (LaspyException ''Big endian files are not currently supported.'')"
  by (cases f) (simp_all add: Spec_init_def bindE_def getitem_def fmtLen_def npFmt_def defaults_def)

theorem Spec_init_zero_count:
  "Spec_init ''user_id'' 2 c_char 0 False True True 1 =
     Inr \<lparr>name = ''user_id'', offs = 2, Format = c_char, fmt = ''<s'', length' = 1, num = 0,
          pack = False, np_fmt = ''s1'', default' = VStr [], overwritable = True, idx = 1\<rparr>"
  by (simp add: Spec_init_def bindE_def getitem_def fmtLen_def npFmt_def defaults_def
      spec_default_def)

section \<open>The header accessors\<close>

lemma bindE_Inr: "bindE (Inr x) f = f x"
  by (simp add: bindE_def)

lemma bindE_Inl: "bindE (Inl e) f = Inl e"
  by (simp add: bindE_def)

lemma jan1_ordinal:
  assumes "1 \<le> y" "y \<le> 9999"
  shows "1 \<le> ymd2ord y 1 1 \<and> ymd2ord y 1 1 \<le> 10000000"
proof -
  define z where "z = y - 1"
  with assms have z: "0 \<le> z" "z \<le> 9998" by auto
  have nonneg: "0 \<le> z div k" if "0 < k" for k
    using z(1) that by (simp add: pos_imp_zdiv_nonneg_iff)
  have le: "z div k \<le> z" if "0 < k" for k
    using zdiv_mono2 [of z 1 k] z(1) that by simp
  have "ymd2ord y 1 1 = z * 365 + z div 4 - z div 100 + z div 400 + 1"
    by (simp add: ymd2ord_def days_before_year_def days_before_month_def
        DAYS_BEFORE_MONTH_def Let_def z_def)
  with nonneg [of 4] nonneg [of 400] le [of 4] le [of 100] le [of 400] z
  show ?thesis by linarith
qed

lemma datetime_jan1: "1 \<le> y \<Longrightarrow> y \<le> 9999 \<Longrightarrow> datetime y 1 1 = Inr (VDatetime y 1 1)"
  by (simp add: datetime_def days_in_month_def DAYS_IN_MONTH_def)

lemma datetime_bad_year: "y < 1 \<or> 9999 < y \<Longrightarrow> datetime y 1 1 = Inl ValueError"
  by (auto simp add: datetime_def)

lemma timedelta_add:
  assumes "1 \<le> y" "y \<le> 9999"
  shows "bindE (timedelta n) (datetime_add (VDatetime y 1 1)) = datetime_add (VDatetime y 1 1) n"
proof (cases "\<bar>n\<bar> > 999999999")
  case True
  with jan1_ordinal [OF assms] show ?thesis
    by (auto simp add: timedelta_def bindE_Inl MAXORDINAL_def Let_def)
next
  case False
  then show ?thesis by (simp add: timedelta_def bindE_Inr)
qed

lemmas date_eval =
  datetime_def timedelta_def ymd2ord_def ord2ymd_def days_before_year_def
  days_before_month_def days_in_month_def DAYS_IN_MONTH_def DAYS_BEFORE_MONTH_def
  MAXORDINAL_def is_leap_def Let_def

text \<open>
  C5, as the code has it. With integer year and day: no date when both are zero; a
  ValueError when the year is outside 1 to 9999, the years \<open>datetime\<close> has; otherwise
  January 1 of the year plus \<open>day\<close> days, or plus \<open>day - 1\<close> days when the year is
  divisible by 400 or by 100, which is the source's leap year (OverflowError when that
  date is outside the calendar).
\<close>

theorem created_date:
  assumes "dictH h ''CreatedDay'' = Some (VInt d)" and "dictH h ''CreatedYear'' = Some (VInt y)"
  shows "get_date h =
    (if y = 0 \<and> d = 0 then Inr VNone
     else if y < 1 \<or> 9999 < y then Inl ValueError
     else datetime_add (VDatetime y 1 1)
            (if y mod 400 = 0 \<or> y mod 100 = 0 then d - 1 else d))"
proof -
  have l: "leap_year y \<longleftrightarrow> (y mod 400 = 0 \<or> y mod 100 = 0)" by simp
  have unfolded: "get_date h =
    (if y = 0 \<and> d = 0 then Inr VNone
     else if \<not> leap_year y
          then bindE (datetime y 1 1) (\<lambda>jan1. bindE (timedelta d) (datetime_add jan1))
          else bindE (datetime y 1 1) (\<lambda>jan1. bindE (timedelta (d - 1)) (datetime_add jan1)))"
    using assms by (simp add: get_date_def getattr_def bindE_Inr del: leap_year.simps)
  show ?thesis
  proof (cases "y < 1 \<or> 9999 < y")
    case True
    from datetime_bad_year [OF True] show ?thesis
      unfolding unfolded using True by (simp add: bindE_Inl del: leap_year.simps)
  next
    case False
    then have y: "1 \<le> y" "y \<le> 9999" by auto
    show ?thesis
      unfolding unfolded datetime_jan1 [OF y] bindE_Inr timedelta_add [OF y] l
      using False by simp
  qed
qed

theorem created_date_witness:
  "dictH \<lparr>dictH = [''CreatedDay'' \<mapsto> VInt 79, ''CreatedYear'' \<mapsto> VInt 2008]\<rparr> ''CreatedDay''
     = Some (VInt 79) \<and>
   dictH \<lparr>dictH = [''CreatedDay'' \<mapsto> VInt 79, ''CreatedYear'' \<mapsto> VInt 2008]\<rparr> ''CreatedYear''
     = Some (VInt 2008) \<and>
   get_date \<lparr>dictH = [''CreatedDay'' \<mapsto> VInt 79, ''CreatedYear'' \<mapsto> VInt 2008]\<rparr>
     = Inr (VDatetime 2008 3 20)"
  using created_date
    [of "\<lparr>dictH = [''CreatedDay'' \<mapsto> VInt 79, ''CreatedYear'' \<mapsto> VInt 2008]\<rparr>" 79 2008]
  by (simp add: date_eval)

theorem created_date_year_zero:
  "get_date \<lparr>dictH = [''CreatedDay'' \<mapsto> VInt 1, ''CreatedYear'' \<mapsto> VInt 0]\<rparr> = Inl ValueError"
  by (simp add: get_date_def getattr_def bindE_def datetime_def)

text \<open>
  C6. When the attribute the accessor reads, \<open>PtDatFormatID\<close>, is an integer from 0 to 5,
  \<open>data_record_length\<close> is the table value; for any other integer the lookup fails, with
  the KeyError of the dictionary.
\<close>

theorem data_record_length:
  assumes "dictH h ''PtDatFormatID'' = Some (VInt i)"
  shows "get_datarecordlength h =
     (if i = 0 then Inr 20 else if i = 1 then Inr 28 else if i = 2 then Inr 26
      else if i = 3 then Inr 34 else if i = 4 then Inr 57 else if i = 5 then Inr 63
      else Inl KeyError)"
  using assms
  by (simp add: get_datarecordlength_def getattr_def bindE_def getitem_def lenDict_def)

theorem data_record_length_witness:
  "dictH \<lparr>dictH = [''PtDatFormatID'' \<mapsto> VInt 3]\<rparr> ''PtDatFormatID'' = Some (VInt 3) \<and>
   get_datarecordlength \<lparr>dictH = [''PtDatFormatID'' \<mapsto> VInt 3]\<rparr> = Inr 34 \<and>
   dictH \<lparr>dictH = [''PtDatFormatID'' \<mapsto> VInt 6]\<rparr> ''PtDatFormatID'' = Some (VInt 6) \<and>
   get_datarecordlength \<lparr>dictH = [''PtDatFormatID'' \<mapsto> VInt 6]\<rparr> = Inl KeyError"
  using data_record_length [of "\<lparr>dictH = [''PtDatFormatID'' \<mapsto> VInt 3]\<rparr>" 3]
        data_record_length [of "\<lparr>dictH = [''PtDatFormatID'' \<mapsto> VInt 6]\<rparr>" 6]
  by simp

lemmas setter_defs =
  set_version_def set_scale_def set_offset_def set_min_def set_max_def set_date_def
  set_systemid_def set_softwareid_def set_filesourceid_def set_global_encoding_def
  set_vlrs_def set_srs_def set_schema_def set_majorversion_def set_minorversion_def

lemma assign_frame: "snd (assign py_int a h v) = h"
  by (cases a)
     (auto simp: setter_defs split: pyval.splits list.splits sum.splits prod.splits)

lemma assign_plain:
  "a \<noteq> version \<Longrightarrow> a \<noteq> date \<Longrightarrow> fst (assign py_int a h v) = Inr ()"
  by (cases a) (simp_all add: setter_defs)

lemma assign_version:
  "split_on CHR ''.'' s = [mj, mn] \<Longrightarrow> py_int mj = Inr x \<Longrightarrow> py_int mn = Inr z \<Longrightarrow>
     fst (assign py_int version h (VStr s)) = Inr ()"
  by (simp add: setter_defs)

lemma assign_date:
  "1 \<le> y \<Longrightarrow> y \<le> 9999 \<Longrightarrow> fst (assign py_int date h (VDatetime y m d)) = Inr ()"
  by (simp add: setter_defs datetime_jan1)

text \<open>
  C7, as the code has it. No setter of the thirteen changes the header, whatever the
  argument. Eleven of them raise nothing for any argument. The version setter raises
  nothing when the argument is a string that splits at its dots into exactly two parts
  which \<open>int\<close> accepts, and the date setter when the argument is a datetime.
\<close>

theorem setters_leave_header:
  "snd (assign py_int a h v) = h \<and>
   (a \<noteq> version \<and> a \<noteq> date \<longrightarrow> fst (assign py_int a h v) = Inr ()) \<and>
   (a = version \<and> v = VStr s \<and> split_on CHR ''.'' s = [mj, mn]
      \<and> py_int mj = Inr x \<and> py_int mn = Inr z \<longrightarrow> fst (assign py_int a h v) = Inr ()) \<and>
   (a = date \<and> v = VDatetime y m d \<and> 1 \<le> y \<and> y \<le> 9999 \<longrightarrow>
      fst (assign py_int a h v) = Inr ())"
  using assign_frame [of py_int a h v] assign_plain [of a py_int h v]
    assign_version [of s mj mn py_int x z h] assign_date [of y py_int h m d]
  by blast

theorem setters_leave_header_witness:
  "assign int_of_digits scale \<lparr>dictH = [''XScale'' \<mapsto> VFloat 0]\<rparr> (VList [VInt 1, VInt 1, VInt 1])
     = (Inr (), \<lparr>dictH = [''XScale'' \<mapsto> VFloat 0]\<rparr>) \<and>
   assign int_of_digits version \<lparr>dictH = [''VersionMinor'' \<mapsto> VInt 0]\<rparr> (VStr ''1.2'')
     = (Inr (), \<lparr>dictH = [''VersionMinor'' \<mapsto> VInt 0]\<rparr>) \<and>
   assign int_of_digits date \<lparr>dictH = [''CreatedYear'' \<mapsto> VInt 0]\<rparr> (VDatetime 2008 3 19)
     = (Inr (), \<lparr>dictH = [''CreatedYear'' \<mapsto> VInt 0]\<rparr>)"
proof -
  have sp: "split_on CHR ''.'' ''1.2'' = [''1'', ''2'']" by simp
  have i1: "int_of_digits ''1'' = Inr 1" and i2: "int_of_digits ''2'' = Inr 2"
    by (simp_all add: int_of_digits_def)
  from setters_leave_header
    [of int_of_digits scale "\<lparr>dictH = [''XScale'' \<mapsto> VFloat 0]\<rparr>"
        "VList [VInt 1, VInt 1, VInt 1]" "[]" "[]" "[]" 0 0 0 0 0]
  have a: "assign int_of_digits scale \<lparr>dictH = [''XScale'' \<mapsto> VFloat 0]\<rparr>
             (VList [VInt 1, VInt 1, VInt 1]) = (Inr (), \<lparr>dictH = [''XScale'' \<mapsto> VFloat 0]\<rparr>)"
    by (simp add: prod_eq_iff)
  from setters_leave_header
    [of int_of_digits version "\<lparr>dictH = [''VersionMinor'' \<mapsto> VInt 0]\<rparr>"
        "VStr ''1.2''" "''1.2''" "''1''" "''2''" 1 2 0 0 0] sp i1 i2
  have b: "assign int_of_digits version \<lparr>dictH = [''VersionMinor'' \<mapsto> VInt 0]\<rparr> (VStr ''1.2'')
             = (Inr (), \<lparr>dictH = [''VersionMinor'' \<mapsto> VInt 0]\<rparr>)"
    by (simp add: prod_eq_iff)
  from setters_leave_header
    [of int_of_digits date "\<lparr>dictH = [''CreatedYear'' \<mapsto> VInt 0]\<rparr>"
        "VDatetime 2008 3 19" "[]" "[]" "[]" 0 0 2008 3 19]
  have c: "assign int_of_digits date \<lparr>dictH = [''CreatedYear'' \<mapsto> VInt 0]\<rparr> (VDatetime 2008 3 19)
             = (Inr (), \<lparr>dictH = [''CreatedYear'' \<mapsto> VInt 0]\<rparr>)"
    by (simp add: prod_eq_iff)
  from a b c show ?thesis by blast
qed

theorem set_version_rejects:
  "fst (assign int_of_digits version \<lparr>dictH = [''VersionMajor'' \<mapsto> VInt 1]\<rparr> (VStr ''1''))
     = Inl ValueError \<and>
   fst (assign int_of_digits date \<lparr>dictH = [''VersionMajor'' \<mapsto> VInt 1]\<rparr> VNone)
     = Inl AttributeError"
  by (simp add: set_version_def set_date_def)

section \<open>Bit fields of the two composite bytes\<close>

lemma bit_field_eq: "bit_field b lo w = take_bit w (drop_bit lo b)"
  by (simp add: bit_field_def take_bit_eq_mask mask_eq_exp_minus_1 push_bit_eq_mult)

lemma flag_byte_bits:
  "assemble_flag_byte (bit_field b 0 3) (bit_field b 3 3) (bit_field b 6 1) (bit_field b 7 1)
     = take_bit 8 b"
  unfolding assemble_flag_byte_def bit_field_eq
proof (rule bit_eqI)
  fix n :: nat
  consider "n < 3" | "3 \<le> n" "n < 6" | "n = 6" | "n = 7" | "8 \<le> n" by linarith
  then show "bit (or (or (or (take_bit 3 (drop_bit 0 b)) (push_bit 3 (take_bit 3 (drop_bit 3 b))))
                 (push_bit 6 (take_bit 1 (drop_bit 6 b)))) (push_bit 7 (take_bit 1 (drop_bit 7 b)))) n
             = bit (take_bit 8 b) n"
    by cases (auto simp add: bit_or_iff bit_push_bit_iff bit_take_bit_iff bit_drop_bit_eq
        bit_iff_odd_drop_bit [of b 6] bit_iff_odd_drop_bit [of b 7])
qed

lemma raw_classification_bits:
  "assemble_raw_classification (bit_field b 0 5) (bit_field b 5 1) (bit_field b 6 1)
     (bit_field b 7 1) = take_bit 8 b"
  unfolding assemble_raw_classification_def bit_field_eq
proof (rule bit_eqI)
  fix n :: nat
  consider "n < 5" | "n = 5" | "n = 6" | "n = 7" | "8 \<le> n" by linarith
  then show "bit (or (or (or (take_bit 5 (drop_bit 0 b)) (push_bit 5 (take_bit 1 (drop_bit 5 b))))
                 (push_bit 6 (take_bit 1 (drop_bit 6 b)))) (push_bit 7 (take_bit 1 (drop_bit 7 b)))) n
             = bit (take_bit 8 b) n"
    by cases (auto simp add: bit_or_iff bit_push_bit_iff bit_take_bit_iff bit_drop_bit_eq
        bit_iff_odd_drop_bit [of b 5] bit_iff_odd_drop_bit [of b 6] bit_iff_odd_drop_bit [of b 7])
qed

text \<open>
  What \<open>make_nice\<close> leaves on a point: the two composite bytes under their field names
  and their eight sub-fields, each the bit field of its byte at the sliced position.
\<close>

lemma make_nice_sub_fields:
  assumes "make_nice p = Inr q"
  shows "\<exists>b c. dictP q ''flag_byte'' = Some (VInt b) \<and>
           dictP q ''raw_classification'' = Some (VInt c) \<and>
           dictP q ''return_num'' = Some (VInt (bit_field b 0 3)) \<and>
           dictP q ''num_returns'' = Some (VInt (bit_field b 3 3)) \<and>
           dictP q ''scan_dir_flag'' = Some (VInt (bit_field b 6 1)) \<and>
           dictP q ''edge_flight_line'' = Some (VInt (bit_field b 7 1)) \<and>
           dictP q ''classification'' = Some (VInt (bit_field c 0 5)) \<and>
           dictP q ''synthetic'' = Some (VInt (bit_field c 5 1)) \<and>
           dictP q ''key_point'' = Some (VInt (bit_field c 6 1)) \<and>
           dictP q ''withheld'' = Some (VInt (bit_field c 7 1))"
  using assms
  by (auto simp: make_nice_def bindE_def getattr_def sub_fields_def
      split: sum.splits option.splits pyval.splits)

text \<open>
  C3. For every byte value from 0 to 255, the four sub-fields of the flag byte, put back at
  their bit positions, give the byte again; the same holds for the classification byte.
\<close>

theorem bit_fields_round_trip:
  assumes "0 \<le> b" and "b \<le> 255"
  shows "assemble_flag_byte (bit_field b 0 3) (bit_field b 3 3) (bit_field b 6 1)
           (bit_field b 7 1) = b \<and>
         assemble_raw_classification (bit_field b 0 5) (bit_field b 5 1) (bit_field b 6 1)
           (bit_field b 7 1) = b"
proof -
  from assms have "take_bit 8 b = b" by (simp add: take_bit_int_eq_self)
  with flag_byte_bits [of b] raw_classification_bits [of b] show ?thesis by simp
qed

theorem bit_fields_round_trip_witness:
  "(0::int) \<le> 165 \<and> (165::int) \<le> 255 \<and>
   assemble_flag_byte (bit_field 165 0 3) (bit_field 165 3 3) (bit_field 165 6 1)
     (bit_field 165 7 1) = 165 \<and>
   assemble_raw_classification (bit_field 165 0 5) (bit_field 165 5 1) (bit_field 165 6 1)
     (bit_field 165 7 1) = 165"
  using bit_fields_round_trip [of 165] by simp

section \<open>The record codec\<close>

subsection \<open>Little-endian integers\<close>

lemma length_le_bytes: "List.length (le_bytes n i) = n"
  by (induction n arbitrary: i) auto

lemma le_int_bounds: "0 \<le> le_int bs \<and> le_int bs < 256 ^ List.length bs"
proof (induction bs)
  case Nil
  show ?case by simp
next
  case (Cons c cs)
  have "0 \<le> (of_char c :: int)" "(of_char c :: int) < 256"
    by (simp_all add: of_char_def)
  with Cons show ?case by auto
qed

lemma le_int_le_bytes: "0 \<le> i \<Longrightarrow> i < 256 ^ n \<Longrightarrow> le_int (le_bytes n i) = i"
proof (induction n arbitrary: i)
  case 0
  then show ?case by simp
next
  case (Suc n)
  from Suc.prems have "0 \<le> i div 256" "i div 256 < 256 ^ n" by auto
  with Suc.IH have "le_int (le_bytes n (i div 256)) = i div 256" by blast
  then show ?case by simp
qed

lemma le_bytes_le_int: "le_bytes (List.length bs) (le_int bs) = bs"
proof (induction bs)
  case Nil
  show ?case by simp
next
  case (Cons c cs)
  have "0 \<le> (of_char c :: int)" "(of_char c :: int) < 256"
    by (simp_all add: of_char_def)
  then have "(of_char c + 256 * le_int cs) mod 256 = (of_char c :: int)"
    and "(of_char c + 256 * le_int cs) div 256 = le_int cs" by auto
  with Cons show ?case by simp
qed

lemma uint_bytes8: "le_int (le_bytes 8 (uint (w :: 64 word))) = uint w"
proof -
  have "uint w < 2 ^ 64" using uint_bounded [of w] by simp
  then show ?thesis by (intro le_int_le_bytes) auto
qed

lemma uint_bytes4: "le_int (le_bytes 4 (uint (w :: 32 word))) = uint w"
proof -
  have "uint w < 2 ^ 32" using uint_bounded [of w] by simp
  then show ?thesis by (intro le_int_le_bytes) auto
qed

subsection \<open>One value, then a whole format\<close>

lemma code_size_cases:
  "code_size c = Some k \<Longrightarrow>
     c = CHR ''L'' \<and> k = 4 \<or> c = CHR ''H'' \<and> k = 2 \<or> c = CHR ''B'' \<and> k = 1
     \<or> c = CHR ''f'' \<and> k = 4 \<or> c = CHR ''s'' \<and> k = 1 \<or> c = CHR ''d'' \<and> k = 8
     \<or> c = CHR ''Q'' \<and> k = 8"
  by (auto simp: code_size_def split: if_splits)

lemma pack_unpack_value:
  assumes "wf_value fp c v"
  shows "\<exists>b. pack_value fp c v = Inr b \<and> code_size c = Some (List.length b)
              \<and> unpack_value fp c b = Inr v"
proof (cases v)
  case (VInt i)
  with assms show ?thesis
    by (auto simp: wf_value_def pack_value_def unpack_value_def code_size_def length_le_bytes
        le_int_le_bytes)
next
  case (VFloat w)
  with assms show ?thesis
    by (auto simp: wf_value_def pack_value_def unpack_value_def code_size_def length_le_bytes
        bindE_def uint_bytes8 uint_bytes4 split: option.splits)
next
  case (VStr s)
  with assms show ?thesis
    by (cases s) (auto simp: wf_value_def pack_value_def unpack_value_def code_size_def)
qed (use assms in \<open>auto simp: wf_value_def\<close>)

lemma pack_unpack_all:
  "list_all2 (wf_value fp) cs vs \<Longrightarrow>
   \<exists>bs. pack_all fp cs vs = Inr bs \<and> calcsize cs = Some (List.length bs)
        \<and> unpack_all fp cs bs = Inr vs"
proof (induction cs vs rule: list_all2_induct)
  case Nil
  show ?case by simp
next
  case (Cons c cs v vs)
  from pack_unpack_value [OF Cons.hyps(1)] obtain b where
    b: "pack_value fp c v = Inr b" "code_size c = Some (List.length b)"
       "unpack_value fp c b = Inr v"
    by blast
  from Cons.IH obtain bs where
    bs: "pack_all fp cs vs = Inr bs" "calcsize cs = Some (List.length bs)"
        "unpack_all fp cs bs = Inr vs"
    by blast
  show ?case using b bs by (simp add: bindE_def)
qed

lemma unpack_pack_value:
  assumes "code_size c = Some (List.length b)"
    and "c = CHR ''f'' \<longrightarrow> (\<forall>x. d2f fp (f2d fp x) = Some x)"
  shows "\<exists>v. unpack_value fp c b = Inr v \<and> pack_value fp c v = Inr b"
proof -
  have bnd: "0 \<le> le_int b" "le_int b < 256 ^ List.length b"
    using le_int_bounds [of b] by auto
  have rt: "le_bytes (List.length b) (le_int b) = b" by (rule le_bytes_le_int)
  from code_size_cases [OF assms(1)]
  consider "c = CHR ''L''" "List.length b = 4" | "c = CHR ''H''" "List.length b = 2"
    | "c = CHR ''B''" "List.length b = 1" | "c = CHR ''f''" "List.length b = 4"
    | "c = CHR ''s''" "List.length b = 1" | "c = CHR ''d''" "List.length b = 8"
    | "c = CHR ''Q''" "List.length b = 8" by auto
  then show ?thesis
  proof cases
    case 4
    with bnd have "uint (word_of_int (le_int b) :: 32 word) = le_int b"
      by (simp add: uint_word_of_int take_bit_int_eq_self)
    with 4 rt assms(2) show ?thesis by (simp add: unpack_value_def pack_value_def bindE_def)
  next
    case 5
    then obtain x where "b = [x]" by (cases b) auto
    with 5 show ?thesis by (simp add: unpack_value_def pack_value_def)
  next
    case 6
    with bnd have "uint (word_of_int (le_int b) :: 64 word) = le_int b"
      by (simp add: uint_word_of_int take_bit_int_eq_self)
    with 6 rt show ?thesis by (simp add: unpack_value_def pack_value_def bindE_def)
  qed (use bnd rt in \<open>auto simp: unpack_value_def pack_value_def\<close>)
qed

lemma unpack_pack_all:
  "calcsize cs = Some (List.length bs) \<Longrightarrow>
   CHR ''f'' \<in> set cs \<longrightarrow> (\<forall>x. d2f fp (f2d fp x) = Some x) \<Longrightarrow>
   \<exists>vs. unpack_all fp cs bs = Inr vs \<and> List.length vs = List.length cs
        \<and> pack_all fp cs vs = Inr bs"
proof (induction cs arbitrary: bs)
  case Nil
  then show ?case by simp
next
  case (Cons c cs)
  from Cons.prems(1) obtain k n where
    kn: "code_size c = Some k" "calcsize cs = Some n" "k + n = List.length bs"
    by (auto split: option.splits)
  then have t: "code_size c = Some (List.length (take k bs))"
    and d: "calcsize cs = Some (List.length (drop k bs))"
    by auto
  from unpack_pack_value [OF t, of fp] Cons.prems(2) obtain v where
    v: "unpack_value fp c (take k bs) = Inr v" "pack_value fp c v = Inr (take k bs)" by auto
  from Cons.IH [OF d] Cons.prems(2) obtain vs where
    vs: "unpack_all fp cs (drop k bs) = Inr vs" "List.length vs = List.length cs"
        "pack_all fp cs vs = Inr (drop k bs)" by auto
  show ?case using kn v vs by (simp add: bindE_def)
qed

subsection \<open>A Struct and the points of a format\<close>

lemma Struct_init_size: "Struct_init f = Inr S \<Longrightarrow> calcsize (codes S) = Some (size_S S)"
  by (auto simp: Struct_init_def split: list.splits if_splits option.splits)

text \<open>
  Values that fit the conversion codes of a Struct come back from \<open>unpack\<close> after
  \<open>pack\<close>, whatever the codes are.
\<close>

lemma Struct_values_round_trip:
  assumes "calcsize (codes S) = Some (size_S S)" and "list_all2 (wf_value fp) (codes S) vs"
  shows "bindE (Struct_pack fp S vs) (Struct_unpack fp S) = Inr vs"
proof -
  from pack_unpack_all [OF assms(2)] obtain bs where
    bs: "pack_all fp (codes S) vs = Inr bs" "calcsize (codes S) = Some (List.length bs)"
        "unpack_all fp (codes S) bs = Inr vs" by blast
  from assms(2) have "List.length vs = List.length (codes S)"
    by (simp add: list_all2_lengthD)
  with bs assms(1) show ?thesis
    by (simp add: Struct_pack_def Struct_unpack_def bindE_def)
qed

text \<open>
  A block of exactly \<open>size\<close> bytes comes back from \<open>pack\<close> after \<open>unpack\<close>; for the
  code \<open>f\<close> this needs every float to survive the conversion to a double and back.
\<close>

lemma Struct_bytes_round_trip:
  assumes "calcsize (codes S) = Some (size_S S)" and "List.length bs = size_S S"
    and "CHR ''f'' \<in> set (codes S) \<longrightarrow> (\<forall>x. d2f fp (f2d fp x) = Some x)"
  shows "bindE (Struct_unpack fp S bs) (Struct_pack fp S) = Inr bs"
proof -
  from assms(1,2) have "calcsize (codes S) = Some (List.length bs)" by simp
  from unpack_pack_all [OF this assms(3)] obtain vs where
    "unpack_all fp (codes S) bs = Inr vs" "List.length vs = List.length (codes S)"
    "pack_all fp (codes S) vs = Inr bs" by blast
  with assms(2) show ?thesis
    by (simp add: Struct_pack_def Struct_unpack_def bindE_def)
qed

lemma Struct_unpack_wrong_length:
  "List.length bs \<noteq> size_S S \<Longrightarrow> Struct_unpack fp S bs = Inl StructError"
  by (simp add: Struct_unpack_def)

text \<open>
  In a point format every field has one element, so the packer has one conversion code
  per field and its size is the record length.
\<close>

lemma point_format_packer:
  assumes "a \<in> set point_ids"
  shows "\<exists>F S. Format_init a ow = Inr F \<and> packer F = Some S \<and> int (size_S S) = rec_len F
           \<and> calcsize (codes S) = Some (size_S S)
           \<and> codes S = map (\<lambda>s. fmt s ! 1) (specs F) \<and> list_all (\<lambda>s. num s = 1) (specs F)"
  using assms
  apply (simp add: point_ids_def)
  apply (elim disjE)
  apply (simp_all add: Format_eval)
  done

lemma point_unpack_wrong_length:
  assumes "a \<in> set point_ids" and "Format_init a ow = Inr F"
    and "int (List.length bs) \<noteq> rec_len F"
  shows "unpack_record fp F bs = Inl StructError"
proof -
  from point_format_packer [OF assms(1), of ow] assms(2) obtain S where
    "packer F = Some S" "int (size_S S) = rec_len F" by auto
  with assms(3) show ?thesis
    by (auto simp add: unpack_record_def Point_init_def Struct_unpack_def bindE_def)
qed

lemma point_values_round_trip:
  assumes "a \<in> set point_ids" and "Format_init a ow = Inr F"
    and "list_all2 (wf_value fp) (map (\<lambda>s. fmt s ! 1) (specs F)) vs"
  shows "bindE (pack_record fp F vs) (unpack_record fp F) = Inr vs"
proof -
  from point_format_packer [OF assms(1), of ow] assms(2) obtain S where
    S: "packer F = Some S" "calcsize (codes S) = Some (size_S S)"
       "codes S = map (\<lambda>s. fmt s ! 1) (specs F)" by auto
  from Struct_values_round_trip [OF S(2), of fp vs] assms(3) S(3)
  have rt: "bindE (Struct_pack fp S vs) (Struct_unpack fp S) = Inr vs" by simp
  then obtain bs where bs: "Struct_pack fp S vs = Inr bs" "Struct_unpack fp S bs = Inr vs"
    by (cases "Struct_pack fp S vs") (auto simp: bindE_def)
  with S(1) show ?thesis
    by (simp add: pack_record_def unpack_record_def Point_init_def Point_pack_def bindE_def)
qed

lemma point_bytes_round_trip:
  assumes "a \<in> set point_ids" and "Format_init a ow = Inr F"
    and "int (List.length bs) = rec_len F"
    and "\<forall>x. d2f fp (f2d fp x) = Some x"
  shows "bindE (unpack_record fp F bs) (pack_record fp F) = Inr bs"
proof -
  from point_format_packer [OF assms(1), of ow] assms(2) obtain S where
    S: "packer F = Some S" "calcsize (codes S) = Some (size_S S)"
       "int (size_S S) = rec_len F" by auto
  with assms(3) have len: "List.length bs = size_S S" by simp
  from Struct_bytes_round_trip [OF S(2) len, of fp] assms(4)
  have rt: "bindE (Struct_unpack fp S bs) (Struct_pack fp S) = Inr bs" by simp
  then obtain vs where vs: "Struct_unpack fp S bs = Inr vs" "Struct_pack fp S vs = Inr bs"
    by (cases "Struct_unpack fp S bs") (auto simp: bindE_def)
  with S(1) show ?thesis
    by (simp add: pack_record_def unpack_record_def Point_init_def Point_pack_def bindE_def)
qed

text \<open>
  The conversion code of \<open>c_long\<close> is the unsigned \<open>L\<close>: a negative coordinate is
  rejected by \<open>pack\<close>.
\<close>

lemma point_negative_coordinate_rejected:
  "bindE (Format_init (IdInt 0) ow)
     (\<lambda>F. pack_record fp F [VInt (- 1), VInt 0, VInt 0, VInt 0, VInt 0, VInt 0, VInt 0,
                              VInt 0, VInt 0])
   = Inl StructError"
  by (simp add: Format_eval pack_record_def Point_init_def Point_pack_def Struct_pack_def
      pack_value_def)

subsection \<open>Schemas with repeated elements\<close>

lemmas codec_eval =
  Format_eval pack_record_def unpack_record_def Point_init_def Point_pack_def Struct_pack_def
  Struct_unpack_def pack_value_def unpack_value_def char_of_def eval_nat_numeral

text \<open>
  C2, at the VLR schema. The packer of a schema has one conversion code per field,
  without the element count: \<open>user_id\<close> (16 characters) and \<open>description\<close> (32) are
  packed as one character each, so the values that come back are not the ones packed.
\<close>

theorem vlr_values_not_restored:
  "bindE (Format_init (IdStr ''VLR'') ow)
     (\<lambda>F. bindE (pack_record fp F
                    [VInt 0, VStr ''laspy_user_id_16'', VInt 34735, VInt 64,
                     VStr ''thirty-two bytes of description.''])
                 (unpack_record fp F))
   = Inr [VInt 0, VStr ''l'', VInt 34735, VInt 64, VStr ''t'']"
  by (simp add: codec_eval)

text \<open>
  C8, at the VLR schema. Its record length is 54 and its packer has size 8: a block of 8
  bytes, shorter than the record, is decoded without an error.
\<close>

theorem vlr_short_block_accepted:
  "bindE (Format_init (IdStr ''VLR'') ow)
     (\<lambda>F. bindE (unpack_record fp F (replicate 8 (CHR 0x00))) (\<lambda>vs. Inr (rec_len F, vs)))
   = Inr (54, [VInt 0, VStr [CHR 0x00], VInt 0, VInt 0, VStr [CHR 0x00]])"
  by (simp add: codec_eval)

text \<open>
  C10, at the VLR schema. A block of exactly the record length, 54 bytes, is refused by
  \<open>unpack\<close>, so nothing is there to encode again.
\<close>

theorem vlr_full_block_refused:
  "bindE (Format_init (IdStr ''VLR'') ow)
     (\<lambda>F. bindE (unpack_record fp F (replicate (nat (rec_len F)) (CHR 0x00)))
                 (pack_record fp F))
   = Inl StructError"
  by (simp add: codec_eval)

end
